theory Spec2Isabelle
  imports Main
begin

section \<open>The data of the UserProfile component (types.ts)\<close>

text \<open>
  \<^verbatim>\<open>UserRole = 'admin' | 'user' | 'guest'\<close>. The constructors carry a prefix, since
  \<open>user\<close> is also a field of the hook's state.
\<close>

datatype UserRole = role_admin | role_user | role_guest

text \<open>
  The interface \<^verbatim>\<open>User\<close>. Optional fields (\<^verbatim>\<open>avatar?\<close>, \<^verbatim>\<open>bio?\<close>) are options. The field
  \<^verbatim>\<open>id\<close> is written \<open>id'\<close>, \<open>id\<close> being the identity function of HOL.
\<close>

record User =
  id' :: string
  email :: string
  firstName :: string
  lastName :: string
  avatar :: "string option"
  bio :: "string option"
  role :: UserRole
  createdAt :: string
  updatedAt :: string

text \<open>The interface \<^verbatim>\<open>UserProfileState\<close>; \<^verbatim>\<open>null\<close> is \<open>None\<close>.\<close>

record UserProfileState =
  user :: "User option"
  isLoading :: bool
  error :: "string option"
  isEditing :: bool

text \<open>
  The interface \<^verbatim>\<open>UpdateUserPayload\<close>: every field optional. The fields carry the suffix
  \<open>_p\<close> to keep them apart from those of \<open>User\<close>.
\<close>

record UpdateUserPayload =
  firstName_p :: "string option"
  lastName_p :: "string option"
  bio_p :: "string option"
  avatar_p :: "string option"

section \<open>The remote calls\<close>

text \<open>
  A value thrown by JavaScript code: an instance of \<^verbatim>\<open>Error\<close> with its \<^verbatim>\<open>message\<close>, or
  any other value. The hook only ever asks \<^verbatim>\<open>err instanceof Error\<close> and reads
  \<^verbatim>\<open>err.message\<close>.
\<close>

datatype thrown = Error string | NonError

text \<open>
  What the hook reads of the \<^verbatim>\<open>Response\<close> of \<^verbatim>\<open>fetch\<close>: \<^verbatim>\<open>ok\<close>, \<^verbatim>\<open>statusText\<close> and the
  result of awaiting \<^verbatim>\<open>json()\<close>, which is the entity sent by the server or a rejection.
\<close>

record Response =
  ok :: bool
  statusText :: string
  json :: "thrown + User"

text \<open>
  The way the promise returned by \<^verbatim>\<open>fetch\<close> settles: it rejects (\<open>Inl\<close>) or resolves with
  a response (\<open>Inr\<close>).
\<close>

type_synonym outcome = "thrown + Response"

text \<open>
  The calls of \<^verbatim>\<open>fetch\<close> the hook issues: \<^verbatim>\<open>fetch(url)\<close> and \<^verbatim>\<open>fetch(url, {method:
  'PATCH', ..., body: JSON.stringify(payload)})\<close>; the body is kept as the payload.
\<close>

datatype request = GET string | PATCH string UpdateUserPayload

definition url :: "string \<Rightarrow> string" where
  "url userId_arg = ''/api/users/'' @ userId_arg"

section \<open>The hook useUserProfile\<close>

text \<open>
  \<^verbatim>\<open>UseUserProfileOptions\<close>. The optional callback \<^verbatim>\<open>onUpdate\<close> is \<open>None\<close> when it is not
  supplied; a supplied callback returns normally (\<open>None\<close>) or throws (\<open>Some\<close>).
\<close>

record UseUserProfileOptions =
  userId :: string
  onUpdate :: "(User \<Rightarrow> thrown option) option"

text \<open>
  An asynchronous call of \<^verbatim>\<open>fetchUser\<close> or \<^verbatim>\<open>updateUser\<close> that is suspended at
  \<^verbatim>\<open>await fetch(...)\<close>. The rest of \<^verbatim>\<open>fetchUser\<close> uses nothing of its closure; the rest
  of \<^verbatim>\<open>updateUser\<close> uses the \<^verbatim>\<open>onUpdate\<close> it captured.
\<close>

datatype inflight = FetchOp | UpdateOp "(User \<Rightarrow> thrown option) option"

text \<open>
  One mounted instance of the hook: the props of the last render, the state held by
  \<^verbatim>\<open>useState\<close>, the remote calls issued so far (oldest first), the suspended
  asynchronous calls (oldest first) and the entities \<^verbatim>\<open>onUpdate\<close> was called with.
\<close>

record hook =
  props :: UseUserProfileOptions
  state :: UserProfileState
  calls :: "request list"
  pending :: "inflight list"
  notified :: "User list"

text \<open>\<^verbatim>\<open>setState(updater)\<close>: the updater is applied to the state held at that moment.\<close>

definition setState :: "(UserProfileState \<Rightarrow> UserProfileState) \<Rightarrow> hook \<Rightarrow> hook" where
  "setState f h = h\<lparr>state := f (state h)\<rparr>"

text \<open>The initial value given to \<^verbatim>\<open>useState\<close> (lines 26-31).\<close>

definition initialState :: UserProfileState where
  "initialState = \<lparr>user = None, isLoading = True, error = None, isEditing = False\<rparr>"

subsection \<open>fetchUser (lines 33-50)\<close>

text \<open>
  Up to the \<^verbatim>\<open>await\<close>: line 34 publishes \<^verbatim>\<open>isLoading: true, error: null\<close>, line 38 issues
  the call for the \<^verbatim>\<open>userId\<close> of the render that made the callback.
\<close>

definition fetchUser :: "hook \<Rightarrow> hook" where
  "fetchUser h =
     (let h1 = setState (\<lambda>prev. prev\<lparr>isLoading := True, error := None\<rparr>) h
      in h1\<lparr>calls := calls h1 @ [GET (url (userId (props h1)))],
             pending := pending h1 @ [FetchOp]\<rparr>)"

text \<open>
  The \<^verbatim>\<open>try\<close> block of lines 38-44 once the call has settled: the value of \<^verbatim>\<open>user\<close>, or
  what is thrown (the rejection of \<^verbatim>\<open>fetch\<close>, the \<^verbatim>\<open>Error\<close> of line 41, the rejection of
  \<^verbatim>\<open>json()\<close>).
\<close>

definition fetchUser_try :: "outcome \<Rightarrow> thrown + User" where
  "fetchUser_try oc =
     (case oc of
        Inl err \<Rightarrow> Inl err
      | Inr response \<Rightarrow>
          if \<not> ok response
          then Inl (Error (''Failed to fetch user: '' @ statusText response))
          else json response)"

text \<open>Line 47.\<close>

definition fetchUser_message :: "thrown \<Rightarrow> string" where
  "fetchUser_message err = (case err of Error m \<Rightarrow> m | NonError \<Rightarrow> ''Failed to fetch user'')"

text \<open>After the \<^verbatim>\<open>await\<close>: line 45 on success, the \<^verbatim>\<open>catch\<close> of lines 46-49 otherwise.\<close>

definition fetchUser_resume :: "outcome \<Rightarrow> hook \<Rightarrow> hook" where
  "fetchUser_resume oc h =
     (case fetchUser_try oc of
        Inr u \<Rightarrow> setState (\<lambda>prev. prev\<lparr>user := Some u, isLoading := False\<rparr>) h
      | Inl err \<Rightarrow>
          setState (\<lambda>prev. prev\<lparr>error := Some (fetchUser_message err), isLoading := False\<rparr>) h)"

subsection \<open>updateUser (lines 52-85)\<close>

text \<open>
  Up to the \<^verbatim>\<open>await\<close>: the guard of line 54, line 56, and the call of lines 60-64. The
  callback is made anew whenever \<^verbatim>\<open>userId\<close>, \<^verbatim>\<open>state.user\<close> or \<^verbatim>\<open>onUpdate\<close> changes (line
  84), so the one returned by the last render reads the \<^verbatim>\<open>user\<close> of the state it
  rendered.
\<close>

definition updateUser :: "UpdateUserPayload \<Rightarrow> hook \<Rightarrow> hook" where
  "updateUser payload h =
     (if user (state h) = None then h
      else
        let h1 = setState (\<lambda>prev. prev\<lparr>isLoading := True, error := None\<rparr>) h
        in h1\<lparr>calls := calls h1 @ [PATCH (url (userId (props h1))) payload],
               pending := pending h1 @ [UpdateOp (onUpdate (props h1))]\<rparr>)"

text \<open>The \<^verbatim>\<open>try\<close> block of lines 60-70 once the call has settled.\<close>

definition updateUser_try :: "outcome \<Rightarrow> thrown + User" where
  "updateUser_try oc =
     (case oc of
        Inl err \<Rightarrow> Inl err
      | Inr response \<Rightarrow>
          if \<not> ok response
          then Inl (Error (''Failed to update user: '' @ statusText response))
          else json response)"

text \<open>Line 80.\<close>

definition updateUser_message :: "thrown \<Rightarrow> string" where
  "updateUser_message err = (case err of Error m \<Rightarrow> m | NonError \<Rightarrow> ''Failed to update user'')"

text \<open>The \<^verbatim>\<open>catch\<close> of lines 79-82.\<close>

definition updateUser_catch :: "thrown \<Rightarrow> hook \<Rightarrow> hook" where
  "updateUser_catch err h =
     setState (\<lambda>prev. prev\<lparr>error := Some (updateUser_message err), isLoading := False\<rparr>) h"

text \<open>
  After the \<^verbatim>\<open>await\<close>: lines 71-76 on success, then \<^verbatim>\<open>onUpdate?.(updatedUser)\<close> of line
  78, which is still inside the \<^verbatim>\<open>try\<close>, so that a callback that throws reaches the
  \<^verbatim>\<open>catch\<close> as well.
\<close>

definition updateUser_resume ::
  "(User \<Rightarrow> thrown option) option \<Rightarrow> outcome \<Rightarrow> hook \<Rightarrow> hook" where
  "updateUser_resume cb oc h =
     (case updateUser_try oc of
        Inl err \<Rightarrow> updateUser_catch err h
      | Inr updatedUser \<Rightarrow>
          let h1 = setState (\<lambda>prev. prev\<lparr>user := Some updatedUser, isLoading := False,
                                          isEditing := False\<rparr>) h
          in case cb of
               None \<Rightarrow> h1
             | Some f \<Rightarrow>
                 let h2 = h1\<lparr>notified := notified h1 @ [updatedUser]\<rparr>
                 in case f updatedUser of
                      None \<Rightarrow> h2
                    | Some err \<Rightarrow> updateUser_catch err h2)"

subsection \<open>setEditing, clearError (lines 87-93)\<close>

definition setEditing :: "bool \<Rightarrow> hook \<Rightarrow> hook" where
  "setEditing b h = setState (\<lambda>prev. prev\<lparr>isEditing := b\<rparr>) h"

definition clearError :: "hook \<Rightarrow> hook" where
  "clearError h = setState (\<lambda>prev. prev\<lparr>error := None\<rparr>) h"

subsection \<open>Renders and the effect (lines 95-97)\<close>

text \<open>
  The first render: the state is the initial one, and the effect runs \<^verbatim>\<open>fetchUser\<close>.
\<close>

definition mount :: "UseUserProfileOptions \<Rightarrow> hook" where
  "mount opts =
     fetchUser \<lparr>props = opts, state = initialState, calls = [], pending = [], notified = []\<rparr>"

text \<open>
  A later render with new props. \<^verbatim>\<open>fetchUser\<close> depends on \<^verbatim>\<open>userId\<close> alone (line 50) and
  the effect on \<^verbatim>\<open>fetchUser\<close> alone (line 97): the effect runs again exactly when
  \<^verbatim>\<open>userId\<close> has changed, and nothing is done to the calls already suspended.
\<close>

definition render :: "UseUserProfileOptions \<Rightarrow> hook \<Rightarrow> hook" where
  "render opts h =
     (if userId opts = userId (props h) then h\<lparr>props := opts\<rparr>
      else fetchUser (h\<lparr>props := opts\<rparr>))"

text \<open>
  The remote call of the \<open>i\<close>-th suspended asynchronous call settles, and that call runs
  to its end. With no such call there is nothing to run.
\<close>

definition settle :: "nat \<Rightarrow> outcome \<Rightarrow> hook \<Rightarrow> hook" where
  "settle i oc h =
     (if i < length (pending h)
      then
        let h1 = h\<lparr>pending := take i (pending h) @ drop (Suc i) (pending h)\<rparr>
        in case pending h ! i of
             FetchOp \<Rightarrow> fetchUser_resume oc h1
           | UpdateOp cb \<Rightarrow> updateUser_resume cb oc h1
      else h)"

text \<open>
  What can happen to a mounted hook: a render, a call of one of the four returned
  functions, the settling of a remote call.
\<close>

datatype event =
    Render UseUserProfileOptions
  | FetchUser
  | UpdateUser UpdateUserPayload
  | SetEditing bool
  | ClearError
  | Settle nat outcome

fun step :: "event \<Rightarrow> hook \<Rightarrow> hook" where
  "step (Render opts) h = render opts h"
| "step FetchUser h = fetchUser h"
| "step (UpdateUser payload) h = updateUser payload h"
| "step (SetEditing b) h = setEditing b h"
| "step ClearError h = clearError h"
| "step (Settle i oc) h = settle i oc h"

fun run :: "event list \<Rightarrow> hook \<Rightarrow> hook" where
  "run [] h = h"
| "run (e # es) h = run es (step e h)"

section \<open>The data of the tests (useUserProfile.test)\<close>

definition mockUser :: User where
  "mockUser = \<lparr>id' = ''user-123'', email = ''john.doe@example.com'', firstName = ''John'',
     lastName = ''Doe'', avatar = None, bio = None, role = role_user,
     createdAt = ''2025-01-01T00:00:00Z'', updatedAt = ''2025-12-16T00:00:00Z''\<rparr>"

text \<open>\<^verbatim>\<open>{ ...mockUser, id: 'user-456', firstName: 'Jane' }\<close>\<close>

definition user2 :: User where
  "user2 = mockUser\<lparr>id' := ''user-456'', firstName := ''Jane''\<rparr>"

text \<open>\<^verbatim>\<open>{ ...mockUser, firstName: 'Jane' }\<close>\<close>

definition updatedUser :: User where
  "updatedUser = mockUser\<lparr>firstName := ''Jane''\<rparr>"

text \<open>\<^verbatim>\<open>mockResolvedValue({ ok: true, json: async () => u })\<close>\<close>

definition okResponse :: "User \<Rightarrow> outcome" where
  "okResponse u = Inr \<lparr>ok = True, statusText = [], json = Inr u\<rparr>"

text \<open>
  \<^verbatim>\<open>mockResolvedValue({ ok: false, statusText: txt })\<close>: there is no \<^verbatim>\<open>json\<close> to call.
\<close>

definition failResponse :: "string \<Rightarrow> outcome" where
  "failResponse txt =
     Inr \<lparr>ok = False, statusText = txt, json = Inl (Error ''response.json is not a function'')\<rparr>"

text \<open>\<^verbatim>\<open>mockRejectedValue(new Error(msg))\<close>\<close>

definition rejected :: "string \<Rightarrow> outcome" where
  "rejected msg = Inl (Error msg)"

text \<open>\<^verbatim>\<open>{ firstName: 'Jane' }\<close>\<close>

definition jane :: UpdateUserPayload where
  "jane = \<lparr>firstName_p = Some ''Jane'', lastName_p = None, bio_p = None, avatar_p = None\<rparr>"

text \<open>\<^verbatim>\<open>useUserProfile({ userId: i })\<close>\<close>

definition forUser :: "string \<Rightarrow> UseUserProfileOptions" where
  "forUser i = \<lparr>userId = i, onUpdate = None\<rparr>"

section \<open>Properties\<close>

lemmas hook_defs = mount_def render_def fetchUser_def fetchUser_resume_def fetchUser_try_def
  fetchUser_message_def updateUser_def updateUser_resume_def updateUser_try_def
  updateUser_message_def updateUser_catch_def setEditing_def clearError_def settle_def
  setState_def initialState_def url_def

lemmas test_defs = mockUser_def user2_def updatedUser_def okResponse_def failResponse_def
  rejected_def jane_def forUser_def

subsection \<open>What a settling call runs\<close>

lemma settle_FetchOp:
  assumes "i < length (pending h)" and "pending h ! i = FetchOp"
  shows "settle i oc h =
         fetchUser_resume oc (h\<lparr>pending := take i (pending h) @ drop (Suc i) (pending h)\<rparr>)"
  using assms by (simp add: settle_def)

lemma settle_UpdateOp:
  assumes "i < length (pending h)" and "pending h ! i = UpdateOp cb"
  shows "settle i oc h =
         updateUser_resume cb oc (h\<lparr>pending := take i (pending h) @ drop (Suc i) (pending h)\<rparr>)"
  using assms by (simp add: settle_def)

lemma updateUser_try_success:
  assumes "ok r" and "json r = Inr u"
  shows "updateUser_try (Inr r) = Inr u"
  using assms by (simp add: updateUser_try_def)

lemma fetchUser_resume_failure:
  assumes "fetchUser_try oc = Inl err"
  shows "fetchUser_resume oc h =
         h\<lparr>state := (state h)\<lparr>error := Some (fetchUser_message err), isLoading := False\<rparr>\<rparr>"
  using assms by (simp add: fetchUser_resume_def setState_def)

lemma updateUser_resume_failure:
  assumes "updateUser_try oc = Inl err"
  shows "updateUser_resume cb oc h =
         h\<lparr>state := (state h)\<lparr>error := Some (updateUser_message err), isLoading := False\<rparr>\<rparr>"
  using assms by (simp add: updateUser_resume_def updateUser_catch_def setState_def)

lemma user_updateUser_resume_success:
  assumes "updateUser_try oc = Inr u"
  shows "user (state (updateUser_resume cb oc h)) = Some u"
  using assms
  by (simp add: updateUser_resume_def updateUser_catch_def setState_def Let_def
      split: option.splits)

lemma isEditing_updateUser_resume_success:
  assumes "updateUser_try oc = Inr u"
  shows "isEditing (state (updateUser_resume cb oc h)) = False"
  using assms
  by (simp add: updateUser_resume_def updateUser_catch_def setState_def Let_def
      split: option.splits)

lemma run_append: "run (es @ fs) h = run fs (run es h)"
  by (induction es arbitrary: h) simp_all

subsection \<open>Two renders with different identities\<close>

text \<open>
  C1, as stated, fails. The hook is mounted for \<^verbatim>\<open>user-123\<close> and rendered again for
  \<^verbatim>\<open>user-456\<close> before the first call settles; the call for \<^verbatim>\<open>user-456\<close> resolves
  first, the call for \<^verbatim>\<open>user-123\<close> after it. Nothing is left in flight, the bound
  identity is \<^verbatim>\<open>user-456\<close>, and the state holds the user \<^verbatim>\<open>user-123\<close>: the late result for
  the previous identity was applied.
\<close>

theorem previous_identity_result_applied:
  "userId (props (run [Render (forUser ''user-456''), Settle 1 (okResponse user2),
                       Settle 0 (okResponse mockUser)] (mount (forUser ''user-123''))))
     = ''user-456''
   \<and> pending (run [Render (forUser ''user-456''), Settle 1 (okResponse user2),
                    Settle 0 (okResponse mockUser)] (mount (forUser ''user-123''))) = []
   \<and> user (state (run [Render (forUser ''user-456''), Settle 1 (okResponse user2),
                        Settle 0 (okResponse mockUser)] (mount (forUser ''user-123''))))
     = Some mockUser
   \<and> id' mockUser = ''user-123''
   \<and> mockUser \<noteq> user2"
  by (simp add: hook_defs test_defs)

text \<open>
  C1, amended. After a mount for one identity and a render for another, both calls are
  in flight, and each result is applied to the state when it arrives, whichever identity
  it was fetched for: when both calls succeed, the user held once both have settled is the
  one of the call that settled last. That is the user of the second identity when its call
  settles last, and the user of the first identity when that call settles last.
\<close>

theorem last_settled_fetch_wins:
  assumes "userId a \<noteq> userId b"
    and "ok rA" and "json rA = Inr uA"
    and "ok rB" and "json rB = Inr uB"
  shows "calls (render b (mount a)) = [GET (url (userId a)), GET (url (userId b))]
       \<and> pending (render b (mount a)) = [FetchOp, FetchOp]
       \<and> state (run [Settle 0 (Inr rA), Settle 0 (Inr rB)] (render b (mount a)))
           = \<lparr>user = Some uB, isLoading = False, error = None, isEditing = False\<rparr>
       \<and> pending (run [Settle 0 (Inr rA), Settle 0 (Inr rB)] (render b (mount a))) = []
       \<and> state (run [Settle 1 (Inr rB), Settle 0 (Inr rA)] (render b (mount a)))
           = \<lparr>user = Some uA, isLoading = False, error = None, isEditing = False\<rparr>
       \<and> pending (run [Settle 1 (Inr rB), Settle 0 (Inr rA)] (render b (mount a))) = []"
  using assms by (simp add: hook_defs)

theorem last_settled_fetch_wins_witness:
  "userId (forUser ''user-123'') \<noteq> userId (forUser ''user-456'')
   \<and> state (run [Settle 0 (okResponse mockUser), Settle 0 (okResponse user2)]
               (render (forUser ''user-456'') (mount (forUser ''user-123''))))
     = \<lparr>user = Some user2, isLoading = False, error = None, isEditing = False\<rparr>
   \<and> state (run [Settle 1 (okResponse user2), Settle 0 (okResponse mockUser)]
               (render (forUser ''user-456'') (mount (forUser ''user-123''))))
     = \<lparr>user = Some mockUser, isLoading = False, error = None, isEditing = False\<rparr>"
proof -
  let ?rA = "\<lparr>ok = True, statusText = [], json = Inr mockUser\<rparr>"
  let ?rB = "\<lparr>ok = True, statusText = [], json = Inr user2\<rparr>"
  have ids: "userId (forUser ''user-123'') \<noteq> userId (forUser ''user-456'')"
    by (simp add: forUser_def)
  have okA: "ok ?rA" and jsA: "json ?rA = Inr mockUser" by simp_all
  have okB: "ok ?rB" and jsB: "json ?rB = Inr user2" by simp_all
  from last_settled_fetch_wins [OF ids okA jsA okB jsB] ids
  show ?thesis by (simp add: okResponse_def)
qed

subsection \<open>updateUser without a user\<close>

text \<open>
  C3. A call of \<^verbatim>\<open>updateUser\<close> made while no user is held does nothing: no remote call
  is issued, no asynchronous call is left suspended, and the whole state, with its
  \<^verbatim>\<open>isEditing\<close> and \<^verbatim>\<open>isLoading\<close> flags, stays as it was.
\<close>

theorem updateUser_without_user_noop:
  assumes "user (state h) = None"
  shows "updateUser payload h = h
       \<and> calls (updateUser payload h) = calls h
       \<and> pending (updateUser payload h) = pending h
       \<and> isEditing (state (updateUser payload h)) = isEditing (state h)
       \<and> isLoading (state (updateUser payload h)) = isLoading (state h)"
  using assms by (simp add: updateUser_def)

text \<open>
  The test \<^verbatim>\<open>does nothing if user is null\<close>: the first fetch fails with \<^verbatim>\<open>Not Found\<close>,
  then \<^verbatim>\<open>updateUser({ firstName: 'Jane' })\<close> is called.
\<close>

theorem updateUser_without_user_noop_witness:
  "user (state (run [Settle 0 (failResponse ''Not Found'')] (mount (forUser ''invalid-id''))))
     = None
   \<and> calls (updateUser jane
        (run [Settle 0 (failResponse ''Not Found'')] (mount (forUser ''invalid-id''))))
     = [GET ''/api/users/invalid-id'']
   \<and> state (updateUser jane
        (run [Settle 0 (failResponse ''Not Found'')] (mount (forUser ''invalid-id''))))
     = \<lparr>user = None, isLoading = False, error = Some ''Failed to fetch user: Not Found'',
        isEditing = False\<rparr>"
proof -
  let ?h = "run [Settle 0 (failResponse ''Not Found'')] (mount (forUser ''invalid-id''))"
  have none: "user (state ?h) = None"
    by (simp add: hook_defs test_defs)
  have "calls ?h = [GET ''/api/users/invalid-id'']"
    and "state ?h = \<lparr>user = None, isLoading = False,
           error = Some ''Failed to fetch user: Not Found'', isEditing = False\<rparr>"
    by (simp_all add: hook_defs test_defs)
  with updateUser_without_user_noop [OF none, of jane] none
  show ?thesis by simp
qed

subsection \<open>updateUser while an update is in flight\<close>

text \<open>
  C2, as stated, fails. The user is fetched, edit mode is entered and
  \<^verbatim>\<open>updateUser\<close> is called twice before any response arrives: two \<^verbatim>\<open>PATCH\<close> calls have
  been issued and two updates are in flight.
\<close>

theorem second_updateUser_issues_call:
  "calls (run [Settle 0 (okResponse mockUser), SetEditing True, UpdateUser jane,
               UpdateUser jane] (mount (forUser ''user-123'')))
     = [GET ''/api/users/user-123'', PATCH ''/api/users/user-123'' jane,
        PATCH ''/api/users/user-123'' jane]
   \<and> pending (run [Settle 0 (okResponse mockUser), SetEditing True, UpdateUser jane]
                 (mount (forUser ''user-123'')))
     = [UpdateOp None]
   \<and> pending (run [Settle 0 (okResponse mockUser), SetEditing True, UpdateUser jane,
                    UpdateUser jane] (mount (forUser ''user-123'')))
     = [UpdateOp None, UpdateOp None]"
  by (simp add: hook_defs test_defs)

text \<open>
  C2, amended. The hook does not refuse overlapping updates: whenever a user is held, a
  call of \<^verbatim>\<open>updateUser\<close> issues a \<^verbatim>\<open>PATCH\<close> call for the payload and leaves one more update
  in flight, whatever is in flight already, and publishes \<^verbatim>\<open>isLoading: true, error: null\<close>.
\<close>

theorem updateUser_with_user_issues_call:
  assumes "user (state h) \<noteq> None"
  shows "calls (updateUser payload h) = calls h @ [PATCH (url (userId (props h))) payload]
       \<and> pending (updateUser payload h) = pending h @ [UpdateOp (onUpdate (props h))]
       \<and> state (updateUser payload h) = (state h)\<lparr>isLoading := True, error := None\<rparr>"
  using assms by (simp add: updateUser_def setState_def Let_def)

theorem updateUser_with_user_issues_call_witness:
  "user (state (run [Settle 0 (okResponse mockUser), SetEditing True, UpdateUser jane]
                  (mount (forUser ''user-123'')))) \<noteq> None
   \<and> pending (run [Settle 0 (okResponse mockUser), SetEditing True, UpdateUser jane]
                 (mount (forUser ''user-123''))) = [UpdateOp None]
   \<and> calls (updateUser jane
        (run [Settle 0 (okResponse mockUser), SetEditing True, UpdateUser jane]
           (mount (forUser ''user-123''))))
     = [GET ''/api/users/user-123'', PATCH ''/api/users/user-123'' jane,
        PATCH ''/api/users/user-123'' jane]
   \<and> pending (updateUser jane
        (run [Settle 0 (okResponse mockUser), SetEditing True, UpdateUser jane]
           (mount (forUser ''user-123''))))
     = [UpdateOp None, UpdateOp None]"
proof -
  let ?h = "run [Settle 0 (okResponse mockUser), SetEditing True, UpdateUser jane]
              (mount (forUser ''user-123''))"
  have held: "user (state ?h) \<noteq> None"
    by (simp add: hook_defs test_defs)
  have before: "calls ?h = [GET ''/api/users/user-123'', PATCH ''/api/users/user-123'' jane]"
    "pending ?h = [UpdateOp None]" "userId (props ?h) = ''user-123''"
    "onUpdate (props ?h) = None"
    by (simp_all add: hook_defs test_defs)
  from updateUser_with_user_issues_call [OF held, of jane] held before
  show ?thesis by (simp add: url_def)
qed

subsection \<open>The outcome of an update\<close>

text \<open>
  C4. When the remote call of an update in flight succeeds (the response is \<^verbatim>\<open>ok\<close> and its
  body is the entity \<open>u\<close>), the state then has \<^verbatim>\<open>isEditing\<close> false and its \<^verbatim>\<open>user\<close> is
  exactly \<open>u\<close>, whatever user was held before and whatever payload was sent.
\<close>

theorem successful_update_replaces_user:
  assumes "i < length (pending h)" and "pending h ! i = UpdateOp cb"
    and "ok r" and "json r = Inr u"
  shows "user (state (settle i (Inr r) h)) = Some u
       \<and> isEditing (state (settle i (Inr r) h)) = False"
  using assms
  by (simp add: settle_UpdateOp updateUser_try_success user_updateUser_resume_success
      isEditing_updateUser_resume_success)

text \<open>
  The test \<^verbatim>\<open>exits edit mode after successful update\<close>: in edit mode with \<^verbatim>\<open>mockUser\<close>
  held, the update of \<^verbatim>\<open>firstName\<close> returns \<^verbatim>\<open>updatedUser\<close>.
\<close>

theorem successful_update_replaces_user_witness:
  "pending (run [Settle 0 (okResponse mockUser), SetEditing True, UpdateUser jane]
              (mount (forUser ''user-123''))) = [UpdateOp None]
   \<and> state (run [Settle 0 (okResponse mockUser), SetEditing True, UpdateUser jane]
              (mount (forUser ''user-123'')))
     = \<lparr>user = Some mockUser, isLoading = True, error = None, isEditing = True\<rparr>
   \<and> user (state (settle 0 (okResponse updatedUser)
        (run [Settle 0 (okResponse mockUser), SetEditing True, UpdateUser jane]
           (mount (forUser ''user-123''))))) = Some updatedUser
   \<and> isEditing (state (settle 0 (okResponse updatedUser)
        (run [Settle 0 (okResponse mockUser), SetEditing True, UpdateUser jane]
           (mount (forUser ''user-123''))))) = False"
proof -
  let ?h = "run [Settle 0 (okResponse mockUser), SetEditing True, UpdateUser jane]
              (mount (forUser ''user-123''))"
  let ?r = "\<lparr>ok = True, statusText = [], json = Inr updatedUser\<rparr>"
  have p: "pending ?h = [UpdateOp None]"
    by (simp add: hook_defs test_defs)
  have s: "state ?h = \<lparr>user = Some mockUser, isLoading = True, error = None, isEditing = True\<rparr>"
    by (simp add: hook_defs test_defs)
  have i: "0 < length (pending ?h)" and k: "pending ?h ! 0 = UpdateOp None"
    unfolding p by simp_all
  have okr: "ok ?r" and js: "json ?r = Inr updatedUser" by simp_all
  from successful_update_replaces_user [OF i k okr js] p s
  show ?thesis by (simp add: okResponse_def)
qed

text \<open>
  C5. When the remote call of an update in flight fails (the call is rejected, the
  response is not \<^verbatim>\<open>ok\<close>, or its body cannot be read), the \<^verbatim>\<open>user\<close> held is left as it
  was, and \<^verbatim>\<open>error\<close> is set. In particular an update submitted with the user \<open>u\<close> held
  and failing next leaves \<open>u\<close> held.
\<close>

theorem failed_update_keeps_user:
  assumes "i < length (pending h)" and "pending h ! i = UpdateOp cb"
    and "updateUser_try oc = Inl err"
  shows "user (state (settle i oc h)) = user (state h)
       \<and> error (state (settle i oc h)) = Some (updateUser_message err)
       \<and> error (state (settle i oc h)) \<noteq> None
       \<and> (user (state h0) = Some u \<longrightarrow>
            user (state (settle (length (pending h0)) oc (updateUser payload h0))) = Some u)"
proof -
  have handler: "state (settle i oc h)
      = (state h)\<lparr>error := Some (updateUser_message err), isLoading := False\<rparr>"
    using assms by (simp add: settle_UpdateOp updateUser_resume_failure)
  have submit: "user (state (settle (length (pending h0)) oc (updateUser payload h0))) = Some u"
    if "user (state h0) = Some u"
    using that assms(3)
    by (simp add: updateUser_def setState_def Let_def settle_def updateUser_resume_failure)
  from handler submit show ?thesis by simp
qed

text \<open>The test \<^verbatim>\<open>sets error on update failure\<close>: the update is answered \<^verbatim>\<open>Forbidden\<close>.\<close>

theorem failed_update_keeps_user_witness:
  "pending (run [Settle 0 (okResponse mockUser), UpdateUser jane]
              (mount (forUser ''user-123''))) = [UpdateOp None]
   \<and> updateUser_try (failResponse ''Forbidden'')
     = Inl (Error ''Failed to update user: Forbidden'')
   \<and> user (state (run [Settle 0 (okResponse mockUser)] (mount (forUser ''user-123''))))
     = Some mockUser
   \<and> user (state (settle 0 (failResponse ''Forbidden'')
        (run [Settle 0 (okResponse mockUser), UpdateUser jane]
           (mount (forUser ''user-123''))))) = Some mockUser
   \<and> error (state (settle 0 (failResponse ''Forbidden'')
        (run [Settle 0 (okResponse mockUser), UpdateUser jane]
           (mount (forUser ''user-123''))))) = Some ''Failed to update user: Forbidden''
   \<and> user (state (settle
        (length (pending (run [Settle 0 (okResponse mockUser)] (mount (forUser ''user-123'')))))
        (failResponse ''Forbidden'')
        (updateUser jane
           (run [Settle 0 (okResponse mockUser)] (mount (forUser ''user-123''))))))
     = Some mockUser"
proof -
  let ?before = "run [Settle 0 (okResponse mockUser)] (mount (forUser ''user-123''))"
  let ?h = "run [Settle 0 (okResponse mockUser), UpdateUser jane]
              (mount (forUser ''user-123''))"
  have u0: "user (state ?before) = Some mockUser"
    by (simp add: hook_defs test_defs)
  have p: "pending ?h = [UpdateOp None]" and u: "user (state ?h) = Some mockUser"
    by (simp_all add: hook_defs test_defs)
  have i: "0 < length (pending ?h)" and k: "pending ?h ! 0 = UpdateOp None"
    unfolding p by simp_all
  have t: "updateUser_try (failResponse ''Forbidden'')
           = Inl (Error ''Failed to update user: Forbidden'')"
    by (simp add: updateUser_try_def failResponse_def)
  from failed_update_keeps_user [OF i k t, of ?before mockUser jane] u0
  have "user (state (settle 0 (failResponse ''Forbidden'') ?h)) = user (state ?h)"
    and "error (state (settle 0 (failResponse ''Forbidden'') ?h))
         = Some (updateUser_message (Error ''Failed to update user: Forbidden''))"
    and "user (state (settle (length (pending ?before)) (failResponse ''Forbidden'')
           (updateUser jane ?before))) = Some mockUser"
    by blast+
  with p u u0 t show ?thesis by (simp add: updateUser_message_def)
qed

text \<open>
  C10. The handler of a failed update writes \<^verbatim>\<open>error\<close> and \<^verbatim>\<open>isLoading\<close> and nothing
  else: \<^verbatim>\<open>isEditing\<close> is what it was. An update submitted in edit mode and failing next
  leaves the hook in edit mode.
\<close>

theorem failed_update_keeps_editing:
  assumes "i < length (pending h)" and "pending h ! i = UpdateOp cb"
    and "updateUser_try oc = Inl err"
  shows "state (settle i oc h)
           = (state h)\<lparr>error := Some (updateUser_message err), isLoading := False\<rparr>
       \<and> isEditing (state (settle i oc h)) = isEditing (state h)
       \<and> calls (settle i oc h) = calls h
       \<and> notified (settle i oc h) = notified h
       \<and> (user (state h0) \<noteq> None \<and> isEditing (state h0) \<longrightarrow>
            isEditing (state (settle (length (pending h0)) oc (updateUser payload h0))))"
proof -
  have handler: "settle i oc h
      = h\<lparr>pending := take i (pending h) @ drop (Suc i) (pending h),
           state := (state h)\<lparr>error := Some (updateUser_message err), isLoading := False\<rparr>\<rparr>"
    using assms by (simp add: settle_UpdateOp updateUser_resume_failure)
  have submit: "isEditing (state (settle (length (pending h0)) oc (updateUser payload h0)))"
    if "user (state h0) \<noteq> None" and "isEditing (state h0)"
    using that assms(3)
    by (simp add: updateUser_def setState_def Let_def settle_def updateUser_resume_failure)
  from handler submit show ?thesis by simp
qed

text \<open>
  In edit mode with \<^verbatim>\<open>mockUser\<close> held, the update is answered \<^verbatim>\<open>Forbidden\<close>.
\<close>

theorem failed_update_keeps_editing_witness:
  "pending (run [Settle 0 (okResponse mockUser), SetEditing True, UpdateUser jane]
              (mount (forUser ''user-123''))) = [UpdateOp None]
   \<and> updateUser_try (failResponse ''Forbidden'')
     = Inl (Error ''Failed to update user: Forbidden'')
   \<and> state (run [Settle 0 (okResponse mockUser), SetEditing True]
              (mount (forUser ''user-123'')))
     = \<lparr>user = Some mockUser, isLoading = False, error = None, isEditing = True\<rparr>
   \<and> state (settle 0 (failResponse ''Forbidden'')
        (run [Settle 0 (okResponse mockUser), SetEditing True, UpdateUser jane]
           (mount (forUser ''user-123''))))
     = \<lparr>user = Some mockUser, isLoading = False,
        error = Some ''Failed to update user: Forbidden'', isEditing = True\<rparr>
   \<and> isEditing (state (settle
        (length (pending (run [Settle 0 (okResponse mockUser), SetEditing True]
                            (mount (forUser ''user-123'')))))
        (failResponse ''Forbidden'')
        (updateUser jane
           (run [Settle 0 (okResponse mockUser), SetEditing True]
              (mount (forUser ''user-123''))))))"
proof -
  let ?before = "run [Settle 0 (okResponse mockUser), SetEditing True]
               (mount (forUser ''user-123''))"
  let ?h = "run [Settle 0 (okResponse mockUser), SetEditing True, UpdateUser jane]
              (mount (forUser ''user-123''))"
  have s0: "state ?before = \<lparr>user = Some mockUser, isLoading = False, error = None,
              isEditing = True\<rparr>"
    by (simp add: hook_defs test_defs)
  then have e0: "user (state ?before) \<noteq> None \<and> isEditing (state ?before)"
    by simp
  have p: "pending ?h = [UpdateOp None]"
    and s: "state ?h = \<lparr>user = Some mockUser, isLoading = True, error = None,
              isEditing = True\<rparr>"
    by (simp_all add: hook_defs test_defs)
  have i: "0 < length (pending ?h)" and k: "pending ?h ! 0 = UpdateOp None"
    unfolding p by simp_all
  have t: "updateUser_try (failResponse ''Forbidden'')
           = Inl (Error ''Failed to update user: Forbidden'')"
    by (simp add: updateUser_try_def failResponse_def)
  from failed_update_keeps_editing [OF i k t, of ?before jane] e0
  have "state (settle 0 (failResponse ''Forbidden'') ?h)
        = (state ?h)\<lparr>error := Some (updateUser_message (Error ''Failed to update user: Forbidden'')),
                      isLoading := False\<rparr>"
    and "isEditing (state (settle (length (pending ?before)) (failResponse ''Forbidden'')
           (updateUser jane ?before)))"
    by blast+
  with p s s0 t show ?thesis by (simp add: updateUser_message_def)
qed

subsection \<open>The outcome of a failed fetch\<close>

text \<open>
  C6, as stated, fails. \<^verbatim>\<open>mockUser\<close> is fetched, then \<^verbatim>\<open>fetchUser\<close> is called again and
  that call is rejected: the error is stored and \<^verbatim>\<open>mockUser\<close> is still held.
\<close>

theorem failed_refetch_keeps_user:
  "user (state (run [Settle 0 (okResponse mockUser), FetchUser,
                     Settle 0 (rejected ''Network error'')] (mount (forUser ''user-123''))))
     = Some mockUser
   \<and> error (state (run [Settle 0 (okResponse mockUser), FetchUser,
                        Settle 0 (rejected ''Network error'')] (mount (forUser ''user-123''))))
     = Some ''Network error''
   \<and> pending (run [Settle 0 (okResponse mockUser), FetchUser,
                    Settle 0 (rejected ''Network error'')] (mount (forUser ''user-123''))) = []"
  by (simp add: hook_defs test_defs)

text \<open>
  C6, amended. When a fetch in flight fails, the state stores the error message and the
  \<^verbatim>\<open>user\<close> is left as it was: a user held before is still held, and after a mount whose
  fetch fails there is none.
\<close>

theorem failed_fetch_stores_error:
  assumes "i < length (pending h)" and "pending h ! i = FetchOp"
    and "fetchUser_try oc = Inl err"
  shows "error (state (settle i oc h)) = Some (fetchUser_message err)
       \<and> user (state (settle i oc h)) = user (state h)
       \<and> user (state (settle 0 oc (mount a))) = None
       \<and> error (state (settle 0 oc (mount a))) = Some (fetchUser_message err)"
proof -
  have handler: "state (settle i oc h)
      = (state h)\<lparr>error := Some (fetchUser_message err), isLoading := False\<rparr>"
    using assms by (simp add: settle_FetchOp fetchUser_resume_failure)
  have first: "state (settle 0 oc (mount a))
      = \<lparr>user = None, isLoading = False, error = Some (fetchUser_message err),
         isEditing = False\<rparr>"
    using assms(3)
    by (simp add: mount_def fetchUser_def initialState_def setState_def Let_def settle_def
        fetchUser_resume_failure)
  from handler first show ?thesis by simp
qed

theorem failed_fetch_stores_error_witness:
  "pending (run [Settle 0 (okResponse mockUser), FetchUser] (mount (forUser ''user-123'')))
     = [FetchOp]
   \<and> fetchUser_try (failResponse ''Service Unavailable'')
     = Inl (Error ''Failed to fetch user: Service Unavailable'')
   \<and> error (state (settle 0 (failResponse ''Service Unavailable'')
        (run [Settle 0 (okResponse mockUser), FetchUser] (mount (forUser ''user-123'')))))
     = Some ''Failed to fetch user: Service Unavailable''
   \<and> user (state (settle 0 (failResponse ''Service Unavailable'')
        (run [Settle 0 (okResponse mockUser), FetchUser] (mount (forUser ''user-123'')))))
     = Some mockUser
   \<and> user (state (settle 0 (failResponse ''Service Unavailable'')
        (mount (forUser ''user-123'')))) = None"
proof -
  let ?h = "run [Settle 0 (okResponse mockUser), FetchUser] (mount (forUser ''user-123''))"
  have p: "pending ?h = [FetchOp]" and u: "user (state ?h) = Some mockUser"
    by (simp_all add: hook_defs test_defs)
  have i: "0 < length (pending ?h)" and k: "pending ?h ! 0 = FetchOp"
    unfolding p by simp_all
  have t: "fetchUser_try (failResponse ''Service Unavailable'')
           = Inl (Error ''Failed to fetch user: Service Unavailable'')"
    by (simp add: fetchUser_try_def failResponse_def)
  from failed_fetch_stores_error [OF i k t, of "forUser ''user-123''"] p u t
  show ?thesis by (simp add: fetchUser_message_def)
qed

subsection \<open>The error message\<close>

text \<open>
  C7, as stated, fails: for a response that is not \<^verbatim>\<open>ok\<close> the claim's pattern, with
  \<^verbatim>\<open>fetch\<close> or \<^verbatim>\<open>update\<close> for the operation, gives \<^verbatim>\<open>Failed to fetch: Not Found\<close> and
  \<^verbatim>\<open>Failed to update: Forbidden\<close>; the hook publishes the two messages below.
\<close>

theorem status_message_names_user:
  "error (state (run [Settle 0 (failResponse ''Not Found'')] (mount (forUser ''missing''))))
     = Some ''Failed to fetch user: Not Found''
   \<and> error (state (run [Settle 0 (failResponse ''Not Found'')] (mount (forUser ''missing''))))
     \<noteq> Some (''Failed to '' @ ''fetch'' @ '': '' @ ''Not Found'')
   \<and> error (state (run [Settle 0 (okResponse mockUser), UpdateUser jane,
                        Settle 0 (failResponse ''Forbidden'')] (mount (forUser ''user-123''))))
     = Some ''Failed to update user: Forbidden''
   \<and> error (state (run [Settle 0 (okResponse mockUser), UpdateUser jane,
                        Settle 0 (failResponse ''Forbidden'')] (mount (forUser ''user-123''))))
     \<noteq> Some (''Failed to '' @ ''update'' @ '': '' @ ''Forbidden'')"
  by (simp add: hook_defs test_defs)

text \<open>
  C7, amended. The error published by a failed fetch or update is: for a response that
  is not \<^verbatim>\<open>ok\<close>, \<^verbatim>\<open>Failed to fetch user: \<close> or \<^verbatim>\<open>Failed to update user: \<close> followed by the
  status text; otherwise, when what failed (the call, or reading the body of an \<^verbatim>\<open>ok\<close>
  response) threw an \<^verbatim>\<open>Error\<close>, the message of that error as it is; otherwise
  \<^verbatim>\<open>Failed to fetch user\<close> or \<^verbatim>\<open>Failed to update user\<close>.
\<close>

theorem error_message_derivation:
  "(\<not> ok r \<longrightarrow> error (state (fetchUser_resume (Inr r) h))
                  = Some (''Failed to fetch user: '' @ statusText r))
   \<and> (\<not> ok r \<longrightarrow> error (state (updateUser_resume cb (Inr r) h))
                  = Some (''Failed to update user: '' @ statusText r))
   \<and> error (state (fetchUser_resume (Inl (Error m)) h)) = Some m
   \<and> error (state (updateUser_resume cb (Inl (Error m)) h)) = Some m
   \<and> (ok r \<and> json r = Inl (Error m) \<longrightarrow>
        error (state (fetchUser_resume (Inr r) h)) = Some m)
   \<and> (ok r \<and> json r = Inl (Error m) \<longrightarrow>
        error (state (updateUser_resume cb (Inr r) h)) = Some m)
   \<and> error (state (fetchUser_resume (Inl NonError) h)) = Some ''Failed to fetch user''
   \<and> error (state (updateUser_resume cb (Inl NonError) h)) = Some ''Failed to update user''
   \<and> (ok r \<and> json r = Inl NonError \<longrightarrow>
        error (state (fetchUser_resume (Inr r) h)) = Some ''Failed to fetch user'')
   \<and> (ok r \<and> json r = Inl NonError \<longrightarrow>
        error (state (updateUser_resume cb (Inr r) h)) = Some ''Failed to update user'')"
  by (simp add: fetchUser_resume_def fetchUser_try_def fetchUser_message_def
      updateUser_resume_def updateUser_try_def updateUser_message_def updateUser_catch_def
      setState_def)

theorem error_message_derivation_witness:
  "\<not> ok \<lparr>ok = False, statusText = ''Not Found'', json = Inl NonError\<rparr>
   \<and> error (state (fetchUser_resume
        (Inr \<lparr>ok = False, statusText = ''Not Found'', json = Inl NonError\<rparr>)
        (mount (forUser ''missing'')))) = Some ''Failed to fetch user: Not Found''
   \<and> error (state (updateUser_resume None
        (Inr \<lparr>ok = False, statusText = ''Not Found'', json = Inl NonError\<rparr>)
        (mount (forUser ''missing'')))) = Some ''Failed to update user: Not Found''
   \<and> error (state (fetchUser_resume (Inl (Error ''Network error''))
        (mount (forUser ''missing'')))) = Some ''Network error''
   \<and> error (state (fetchUser_resume (Inl NonError)
        (mount (forUser ''missing'')))) = Some ''Failed to fetch user''
   \<and> ok \<lparr>ok = True, statusText = [], json = Inl (Error ''Unexpected end of JSON input'')\<rparr>
   \<and> json \<lparr>ok = True, statusText = [], json = Inl (Error ''Unexpected end of JSON input'')\<rparr>
     = Inl (Error ''Unexpected end of JSON input'')
   \<and> error (state (updateUser_resume None
        (Inr \<lparr>ok = True, statusText = [],
              json = Inl (Error ''Unexpected end of JSON input'')\<rparr>)
        (mount (forUser ''missing'')))) = Some ''Unexpected end of JSON input''
   \<and> json \<lparr>ok = True, statusText = [], json = Inl NonError\<rparr> = Inl NonError
   \<and> error (state (updateUser_resume None
        (Inr \<lparr>ok = True, statusText = [], json = Inl NonError\<rparr>)
        (mount (forUser ''missing'')))) = Some ''Failed to update user''"
proof -
  let ?r = "\<lparr>ok = False, statusText = ''Not Found'', json = Inl NonError\<rparr>"
  let ?body = "\<lparr>ok = True, statusText = [],
                json = Inl (Error ''Unexpected end of JSON input'')\<rparr>"
  have n: "\<not> ok ?r" by simp
  let ?other = "\<lparr>ok = True, statusText = [], json = Inl NonError\<rparr>"
  have b: "ok ?body \<and> json ?body = Inl (Error ''Unexpected end of JSON input'')" by simp
  have c: "ok ?other \<and> json ?other = Inl NonError" by simp
  from error_message_derivation
         [of ?r "mount (forUser ''missing'')" None "''Network error''"] n
       error_message_derivation
         [of ?body "mount (forUser ''missing'')" None "''Unexpected end of JSON input''"] b
       error_message_derivation [of ?other "mount (forUser ''missing'')" None "[]"] c
  show ?thesis by simp
qed

subsection \<open>The beginning of an operation\<close>

text \<open>
  C9. The first thing a call of \<^verbatim>\<open>fetchUser\<close> does, and the first thing a call of
  \<^verbatim>\<open>updateUser\<close> with a user held does, is to publish the state with \<^verbatim>\<open>isLoading\<close> true
  and \<^verbatim>\<open>error\<close> cleared, the other fields as they were: an error shown before is gone
  before the outcome of the new call is known.
\<close>

theorem operation_begins_loading_without_error:
  "state (fetchUser h) = (state h)\<lparr>isLoading := True, error := None\<rparr>
   \<and> isLoading (state (fetchUser h))
   \<and> error (state (fetchUser h)) = None
   \<and> (user (state h) \<noteq> None \<longrightarrow>
        state (updateUser payload h) = (state h)\<lparr>isLoading := True, error := None\<rparr>
        \<and> isLoading (state (updateUser payload h))
        \<and> error (state (updateUser payload h)) = None)"
  by (simp add: fetchUser_def updateUser_def setState_def Let_def)

text \<open>
  After an update answered \<^verbatim>\<open>Forbidden\<close> the error is shown; a new update or a new fetch
  clears it at once.
\<close>

theorem operation_begins_loading_without_error_witness:
  "state (run [Settle 0 (okResponse mockUser), UpdateUser jane,
               Settle 0 (failResponse ''Forbidden'')] (mount (forUser ''user-123'')))
     = \<lparr>user = Some mockUser, isLoading = False,
        error = Some ''Failed to update user: Forbidden'', isEditing = False\<rparr>
   \<and> state (updateUser jane
        (run [Settle 0 (okResponse mockUser), UpdateUser jane,
              Settle 0 (failResponse ''Forbidden'')] (mount (forUser ''user-123''))))
     = \<lparr>user = Some mockUser, isLoading = True, error = None, isEditing = False\<rparr>
   \<and> state (fetchUser
        (run [Settle 0 (okResponse mockUser), UpdateUser jane,
              Settle 0 (failResponse ''Forbidden'')] (mount (forUser ''user-123''))))
     = \<lparr>user = Some mockUser, isLoading = True, error = None, isEditing = False\<rparr>"
proof -
  let ?h = "run [Settle 0 (okResponse mockUser), UpdateUser jane,
                 Settle 0 (failResponse ''Forbidden'')] (mount (forUser ''user-123''))"
  have s: "state ?h = \<lparr>user = Some mockUser, isLoading = False,
             error = Some ''Failed to update user: Forbidden'', isEditing = False\<rparr>"
    by (simp add: hook_defs test_defs)
  then have held: "user (state ?h) \<noteq> None" by simp
  from operation_begins_loading_without_error [of ?h jane] held s
  show ?thesis by simp
qed

subsection \<open>Loading and error\<close>

text \<open>Every event keeps: if an error is shown, the hook is not loading.\<close>

lemma step_error_not_loading:
  assumes "error (state h) \<noteq> None \<longrightarrow> \<not> isLoading (state h)"
  shows "error (state (step e h)) \<noteq> None \<longrightarrow> \<not> isLoading (state (step e h))"
proof (cases e)
  case (Settle i oc)
  show ?thesis
  proof (cases "i < length (pending h)")
    case True
    with assms Settle show ?thesis
      by (cases "pending h ! i"; cases "fetchUser_try oc"; cases "updateUser_try oc")
         (simp_all add: settle_def fetchUser_resume_def updateUser_resume_def
            updateUser_catch_def setState_def Let_def split: option.splits)
  next
    case False
    with assms Settle show ?thesis by (simp add: settle_def)
  qed
qed (use assms in \<open>simp_all add: render_def fetchUser_def updateUser_def setEditing_def
       clearError_def setState_def Let_def\<close>)

lemma run_error_not_loading:
  assumes "error (state h) \<noteq> None \<longrightarrow> \<not> isLoading (state h)"
  shows "error (state (run es h)) \<noteq> None \<longrightarrow> \<not> isLoading (state (run es h))"
  using assms
proof (induction es arbitrary: h)
  case Nil
  then show ?case by simp
next
  case (Cons e es)
  from Cons.prems
  have "error (state (step e h)) \<noteq> None \<longrightarrow> \<not> isLoading (state (step e h))"
    by (rule step_error_not_loading)
  then have "error (state (run es (step e h))) \<noteq> None
             \<longrightarrow> \<not> isLoading (state (run es (step e h)))"
    by (rule Cons.IH)
  then show ?case by simp
qed

lemma mount_no_error: "error (state (mount a)) = None"
  by (simp add: mount_def fetchUser_def setState_def Let_def)

text \<open>
  C8. In every state a mounted hook can reach, by any sequence of renders, calls and
  settled remote calls, and so in every state published after an operation has reported a
  failure, \<^verbatim>\<open>isLoading\<close> and \<^verbatim>\<open>error\<close> are not both set. \<^verbatim>\<open>isEditing\<close> is independent of
  both: from any such state \<^verbatim>\<open>setEditing\<close> gives it either value and leaves \<^verbatim>\<open>isLoading\<close>
  and \<^verbatim>\<open>error\<close> as they are.
\<close>

theorem error_implies_not_loading:
  "(error (state (run es (mount a))) \<noteq> None \<longrightarrow> \<not> isLoading (state (run es (mount a))))
   \<and> state (run (es @ [SetEditing b]) (mount a))
     = (state (run es (mount a)))\<lparr>isEditing := b\<rparr>"
proof
  show "error (state (run es (mount a))) \<noteq> None \<longrightarrow> \<not> isLoading (state (run es (mount a)))"
    by (rule run_error_not_loading) (simp add: mount_no_error)
  show "state (run (es @ [SetEditing b]) (mount a))
        = (state (run es (mount a)))\<lparr>isEditing := b\<rparr>"
    by (simp add: run_append setEditing_def setState_def)
qed

text \<open>
  Two fetches are in flight and the first one fails: the error is set, so the hook is not
  loading, although the second fetch has not settled. Edit mode can be entered there.
\<close>

theorem error_implies_not_loading_witness:
  "error (state (run [Render (forUser ''user-456''), Settle 0 (failResponse ''Not Found'')]
                   (mount (forUser ''invalid-id''))))
     = Some ''Failed to fetch user: Not Found''
   \<and> pending (run [Render (forUser ''user-456''), Settle 0 (failResponse ''Not Found'')]
                 (mount (forUser ''invalid-id''))) = [FetchOp]
   \<and> \<not> isLoading (state (run [Render (forUser ''user-456''),
                              Settle 0 (failResponse ''Not Found'')]
                         (mount (forUser ''invalid-id''))))
   \<and> isEditing (state (run ([Render (forUser ''user-456''),
                             Settle 0 (failResponse ''Not Found'')] @ [SetEditing True])
                        (mount (forUser ''invalid-id''))))"
proof -
  let ?es = "[Render (forUser ''user-456''), Settle 0 (failResponse ''Not Found'')]"
  let ?h = "run ?es (mount (forUser ''invalid-id''))"
  have e: "error (state ?h) = Some ''Failed to fetch user: Not Found''"
    and p: "pending ?h = [FetchOp]"
    by (simp_all add: hook_defs test_defs)
  from e have set: "error (state ?h) \<noteq> None" by simp
  from error_implies_not_loading [of ?es "forUser ''invalid-id''" True]
  have inv: "error (state ?h) \<noteq> None \<longrightarrow> \<not> isLoading (state ?h)"
    and ed: "state (run (?es @ [SetEditing True]) (mount (forUser ''invalid-id'')))
             = (state ?h)\<lparr>isEditing := True\<rparr>"
    by blast+
  from inv set have "\<not> isLoading (state ?h)" by blast
  moreover from ed have "isEditing (state (run (?es @ [SetEditing True])
                                       (mount (forUser ''invalid-id''))))"
    by simp
  ultimately show ?thesis using e p by blast
qed

end
